theory Spec2Isabelle
  imports Complex_Main
begin

section \<open>Data model (types.ts)\<close>

text \<open>
  JavaScript numbers are modelled as mathematical reals wherever the editor does
  arithmetic on coordinates: the geometry below is the exact-arithmetic reading of the
  code, and rounding error of IEEE doubles is outside the model.  Record fields carry a
  prefix (\<open>pt_x\<close> for \<open>Pt.x\<close>, \<open>wall_a\<close> for \<open>Wall.a\<close>, ...) because a record
  field is a global constant in HOL.
\<close>

record Pt =
  pt_x :: real
  pt_y :: real

text \<open>
  A JavaScript string is a sequence of UTF-16 code units.  Where the program looks inside a
  string (the symbol importer trims and splits markup and attribute text) the model has
  the code units themselves, as numbers; \<open>codeUnits\<close> writes an ASCII literal as such a
  sequence.  Identifiers, names and JSON keys are only stored and compared, and stay HOL
  strings.
\<close>

type_synonym jsstring = "nat list"

definition codeUnits :: "string \<Rightarrow> jsstring" where
  "codeUnits s = map of_char s"

record Wall =
  wall_id :: string
  wall_a :: Pt
  wall_b :: Pt

record SvgAsset =
  asset_id :: string
  asset_name :: string
  asset_inner :: jsstring
  asset_vbW :: real
  asset_vbH :: real
  asset_x :: real
  asset_y :: real
  asset_scale :: real
  asset_rotationDeg :: real

record Plan =
  walls :: "Wall list"
  assets :: "SvgAsset list"

datatype Selection = NoSelection | WallSelection string | AssetSelection string

record ViewState =
  view_x :: real
  view_y :: real
  view_scale :: real

section \<open>Geometry kernel (geometry module)\<close>

text \<open>The functions the application imports from \<open>./geometry\<close> (in the source tree they
  follow the type declarations in \<open>types.ts\<close>).\<close>

text \<open>\<open>Math.hypot(u, v)\<close> and \<open>Math.round(v)\<close>; the latter rounds a tie towards
  \<open>+\<infinity>\<close> (ECMAScript: \<open>floor(v + 0.5)\<close>).\<close>

definition hypot :: "real \<Rightarrow> real \<Rightarrow> real" where
  "hypot u v = sqrt (u * u + v * v)"

definition Math_round :: "real \<Rightarrow> real" where
  "Math_round v = of_int \<lfloor>v + 1 / 2\<rfloor>"

definition dist_pt :: "Pt \<Rightarrow> Pt \<Rightarrow> real" where
  "dist_pt a b = (let dx = pt_x a - pt_x b; dy = pt_y a - pt_y b in hypot dx dy)"

definition mid :: "Pt \<Rightarrow> Pt \<Rightarrow> Pt" where
  "mid a b = \<lparr>pt_x = (pt_x a + pt_x b) / 2, pt_y = (pt_y a + pt_y b) / 2\<rparr>"

definition clamp :: "real \<Rightarrow> real \<Rightarrow> real \<Rightarrow> real" where
  "clamp n lo hi = max lo (min hi n)"

definition snapToGrid :: "Pt \<Rightarrow> real \<Rightarrow> Pt" where
  "snapToGrid p grid =
     \<lparr>pt_x = Math_round (pt_x p / grid) * grid, pt_y = Math_round (pt_y p / grid) * grid\<rparr>"

text \<open>\<open>Math.hypot(dx, dy) || 1\<close>: the length is replaced by 1 when it is 0.\<close>

definition setLengthFromA :: "Pt \<Rightarrow> Pt \<Rightarrow> real \<Rightarrow> Pt" where
  "setLengthFromA a b newLen =
     (let dx = pt_x b - pt_x a;
          dy = pt_y b - pt_y a;
          len = (if hypot dx dy = 0 then 1 else hypot dx dy);
          s = newLen / len
      in \<lparr>pt_x = pt_x a + dx * s, pt_y = pt_y a + dy * s\<rparr>)"

definition pxToMeters :: "real \<Rightarrow> real \<Rightarrow> real" where
  "pxToMeters px scalePxPerM = px / scalePxPerM"

definition metersToPx :: "real \<Rightarrow> real \<Rightarrow> real" where
  "metersToPx m scalePxPerM = m * scalePxPerM"

text \<open>The rounding rule the specification names, for comparison with \<open>Math_round\<close>:
  a tie rounds away from zero.\<close>

definition roundHalfAwayFromZero :: "real \<Rightarrow> real" where
  "roundHalfAwayFromZero v = sgn v * of_int \<lfloor>\<bar>v\<bar> + 1 / 2\<rfloor>"

definition snapToGrid_halfAway :: "Pt \<Rightarrow> real \<Rightarrow> Pt" where
  "snapToGrid_halfAway p grid =
     \<lparr>pt_x = roundHalfAwayFromZero (pt_x p / grid) * grid,
      pt_y = roundHalfAwayFromZero (pt_y p / grid) * grid\<rparr>"

section \<open>JSON values\<close>

text \<open>
  What \<open>JSON.parse\<close> and \<open>Response.json()\<close> hand to the program.  A property read yields
  \<open>None\<close> for \<open>undefined\<close>; \<open>getProp\<close> is \<open>v?.k\<close> (and \<open>v.k\<close> on a value known not to
  be null or undefined), \<open>getIndex0\<close> is \<open>v?.[0]\<close>, \<open>truthy\<close> is JavaScript's
  conversion to boolean and \<open>nullish\<close> the test made by \<open>??\<close>.  The keys the program
  reads (\<open>plan\<close>, \<open>walls\<close>, \<open>view\<close>, \<open>prompt\<close>, \<open>id\<close>) are own properties of objects only,
  so reading one from a number, a string, a boolean or an array is \<open>undefined\<close>.
\<close>

datatype json =
    JNull
  | JBool bool
  | JNum real
  | JStr string
  | JArr "json list"
  | JObj "(string \<times> json) list"

fun getProp :: "json option \<Rightarrow> string \<Rightarrow> json option" where
  "getProp (Some (JObj kvs)) k = map_of kvs k"
| "getProp _ k = None"

fun getIndex0 :: "json option \<Rightarrow> json option" where
  "getIndex0 (Some (JArr [])) = None"
| "getIndex0 (Some (JArr (v # vs))) = Some v"
| "getIndex0 (Some (JStr [])) = None"
| "getIndex0 (Some (JStr (c # cs))) = Some (JStr [c])"
| "getIndex0 (Some (JObj kvs)) = map_of kvs ''0''"
| "getIndex0 _ = None"

fun truthy :: "json option \<Rightarrow> bool" where
  "truthy None = False"
| "truthy (Some JNull) = False"
| "truthy (Some (JBool b)) = b"
| "truthy (Some (JNum n)) = (n \<noteq> 0)"
| "truthy (Some (JStr s)) = (s \<noteq> [])"
| "truthy (Some (JArr vs)) = True"
| "truthy (Some (JObj kvs)) = True"

fun nullish :: "json option \<Rightarrow> bool" where
  "nullish None = True"
| "nullish (Some JNull) = True"
| "nullish (Some v) = False"

section \<open>Plan generation (planGenerator module)\<close>

text \<open>
  The network is the environment: \<open>fetch\<close> either rejects or resolves to a response with
  its \<open>ok\<close> flag and the outcome of \<open>res.json()\<close> (\<open>None\<close> when the body is not JSON).
  \<open>data.plan as Plan\<close> is an unchecked cast, so a remote plan is returned as the JSON
  value it is.  This is the asynchronous \<open>generatePlanFromText\<close> that posts the prompt
  to the generation service.
\<close>

datatype fetch_outcome = FetchRejected | FetchResponse bool "json option"

datatype generation_error = NetworkFailure | ApiStatus | BodyNotJson | MalformedApiResponse

datatype plan_value = LocalPlan Plan | RemotePlan json

definition fallback :: Plan where
  "fallback =
     \<lparr>walls =
        [\<lparr>wall_id = ''w1'', wall_a = \<lparr>pt_x = 120, pt_y = 120\<rparr>, wall_b = \<lparr>pt_x = 720, pt_y = 120\<rparr>\<rparr>,
         \<lparr>wall_id = ''w2'', wall_a = \<lparr>pt_x = 720, pt_y = 120\<rparr>, wall_b = \<lparr>pt_x = 720, pt_y = 540\<rparr>\<rparr>,
         \<lparr>wall_id = ''w3'', wall_a = \<lparr>pt_x = 720, pt_y = 540\<rparr>, wall_b = \<lparr>pt_x = 120, pt_y = 540\<rparr>\<rparr>,
         \<lparr>wall_id = ''w4'', wall_a = \<lparr>pt_x = 120, pt_y = 540\<rparr>, wall_b = \<lparr>pt_x = 120, pt_y = 120\<rparr>\<rparr>,
         \<lparr>wall_id = ''w5'', wall_a = \<lparr>pt_x = 420, pt_y = 120\<rparr>, wall_b = \<lparr>pt_x = 420, pt_y = 540\<rparr>\<rparr>],
      assets = []\<rparr>"

text \<open>The body of the \<open>try\<close> block: every \<open>throw\<close> and every rejection is an \<open>Inl\<close>.\<close>

definition requestPlan :: "fetch_outcome \<Rightarrow> generation_error + json" where
  "requestPlan res =
     (case res of
        FetchRejected \<Rightarrow> Inl NetworkFailure
      | FetchResponse ok body \<Rightarrow>
          if \<not> ok then Inl ApiStatus
          else (case body of
                  None \<Rightarrow> Inl BodyNotJson
                | Some data \<Rightarrow>
                    (case getProp (Some data) ''plan'' of
                       None \<Rightarrow> Inl MalformedApiResponse
                     | Some p \<Rightarrow>
                         if \<not> truthy (getProp (Some p) ''walls'') then Inl MalformedApiResponse
                         else Inr p)))"

text \<open>The \<open>catch\<close> turns every failure of the \<open>try\<close> block into the fallback plan.\<close>

definition generatePlanFromText :: "(string \<Rightarrow> fetch_outcome) \<Rightarrow> string \<Rightarrow> plan_value" where
  "generatePlanFromText fetch prompt =
     (case requestPlan (fetch prompt) of
        Inl err \<Rightarrow> LocalPlan fallback
      | Inr p \<Rightarrow> RemotePlan p)"

text \<open>The shape the specification gives the fallback plan: four walls that close into an
  axis-parallel rectangle, and a fifth wall running between two opposite sides strictly
  inside it.\<close>

definition closesRectangle :: "Wall list \<Rightarrow> bool" where
  "closesRectangle ws =
     (case ws of
        [t, r, b, l] \<Rightarrow>
          wall_b t = wall_a r \<and> wall_b r = wall_a b \<and> wall_b b = wall_a l \<and> wall_b l = wall_a t
          \<and> pt_y (wall_a t) = pt_y (wall_b t) \<and> pt_x (wall_a r) = pt_x (wall_b r)
          \<and> pt_y (wall_a b) = pt_y (wall_b b) \<and> pt_x (wall_a l) = pt_x (wall_b l)
          \<and> pt_x (wall_a t) \<noteq> pt_x (wall_b t) \<and> pt_y (wall_a r) \<noteq> pt_y (wall_b r)
      | _ \<Rightarrow> False)"

definition partitionsRectangle :: "Wall list \<Rightarrow> Wall \<Rightarrow> bool" where
  "partitionsRectangle ws w =
     (case ws of
        [t, r, b, l] \<Rightarrow>
          pt_x (wall_a w) = pt_x (wall_b w)
          \<and> pt_y (wall_a w) = pt_y (wall_a t) \<and> pt_y (wall_b w) = pt_y (wall_a b)
          \<and> min (pt_x (wall_a t)) (pt_x (wall_b t)) < pt_x (wall_a w)
          \<and> pt_x (wall_a w) < max (pt_x (wall_a t)) (pt_x (wall_b t))
      | _ \<Rightarrow> False)"

section \<open>Loading a saved document (App.onLoadFile)\<close>

text \<open>
  \<open>JSON.parse\<close> is a parameter (\<open>None\<close> when it throws).  The handler throws before it
  calls any state setter, so a failure is an \<open>Inl\<close> and carries no new state; on success
  the record holds the arguments of \<open>setPlan\<close>, \<open>setView\<close>, \<open>setPrompt\<close> and the wall id
  given to \<open>setSelection\<close> (\<open>None\<close> for \<open>null\<close>).  TypeScript types are erased at run time:
  the values are the document's JSON values, whatever their shape.
\<close>

datatype load_error = JsonSyntaxError | InvalidFile

record loaded =
  loaded_plan :: json
  loaded_view :: json
  loaded_prompt :: json
  loaded_selection :: "json option"

definition defaultView :: json where
  "defaultView = JObj [(''x'', JNum 0), (''y'', JNum 0), (''scale'', JNum 1)]"

definition onLoadParsed :: "json \<Rightarrow> load_error + loaded" where
  "onLoadParsed parsed =
     (case getProp (Some parsed) ''plan'' of
        None \<Rightarrow> Inl InvalidFile
      | Some p \<Rightarrow>
          if \<not> truthy (Some p) then Inl InvalidFile
          else Inr \<lparr>loaded_plan = p,
                    loaded_view =
                      (case getProp (Some parsed) ''view'' of
                         None \<Rightarrow> defaultView
                       | Some v \<Rightarrow> if nullish (Some v) then defaultView else v),
                    loaded_prompt =
                      (case getProp (Some parsed) ''prompt'' of
                         None \<Rightarrow> JStr []
                       | Some v \<Rightarrow> if nullish (Some v) then JStr [] else v),
                    loaded_selection =
                      (let wid = getProp (getIndex0 (getProp (Some p) ''walls'')) ''id''
                       in if truthy wid then wid else None)\<rparr>)"

definition onLoadFile :: "(string \<Rightarrow> json option) \<Rightarrow> string \<Rightarrow> load_error + loaded" where
  "onLoadFile JSON_parse text =
     (case JSON_parse text of
        None \<Rightarrow> Inl JsonSyntaxError
      | Some parsed \<Rightarrow> onLoadParsed parsed)"

text \<open>How the program reads a view object: \<open>view.x\<close>, \<open>view.y\<close>, \<open>view.scale\<close>.\<close>

definition asViewState :: "json \<Rightarrow> ViewState option" where
  "asViewState v =
     (case (getProp (Some v) ''x'', getProp (Some v) ''y'', getProp (Some v) ''scale'') of
        (Some (JNum vx), Some (JNum vy), Some (JNum s)) \<Rightarrow>
          Some \<lparr>view_x = vx, view_y = vy, view_scale = s\<rparr>
      | _ \<Rightarrow> None)"

text \<open>The condition under which the specification lets \<open>deserialize\<close> succeed: the decoded
  value has a \<open>plan.walls\<close> sequence.\<close>

definition hasWallsSequence :: "json \<Rightarrow> bool" where
  "hasWallsSequence parsed =
     (case getProp (getProp (Some parsed) ''plan'') ''walls'' of
        Some (JArr ws) \<Rightarrow> True
      | _ \<Rightarrow> False)"

section \<open>Symbol importer (svgParser.ts)\<close>

text \<open>
  The browser is the environment.  \<open>parseFromString\<close> is \<open>DOMParser.parseFromString(_,
  "image/svg+xml")\<close> and yields the children of the document, \<open>innerHTML\<close> serialises a
  list of children, \<open>js_Number\<close> and \<open>js_parseFloat\<close> are \<open>Number\<close> and
  \<open>Number.parseFloat\<close>.  A \<open>number\<close> may be \<open>NaN\<close> or infinite; only values that passed
  \<open>Number.isFinite\<close> are used as sizes.
\<close>

datatype number = Finite real | NaN | PosInfinity | NegInfinity

datatype node =
    Element jsstring "(jsstring \<times> jsstring) list" "node list"
  | TextNode jsstring
  | Comment jsstring

record runtime =
  parseFromString :: "jsstring \<Rightarrow> node list"
  innerHTML :: "node list \<Rightarrow> jsstring"
  js_Number :: "jsstring \<Rightarrow> number"
  js_parseFloat :: "jsstring \<Rightarrow> number"

datatype svg_error = InvalidSvgParserError | InvalidSvgMissingSvg | NoDrawableContent

record parsed_svg =
  inner :: jsstring
  vbW :: real
  vbH :: real

fun isFinite :: "number \<Rightarrow> bool" where
  "isFinite (Finite r) = True"
| "isFinite _ = False"

fun valueOf :: "number \<Rightarrow> real" where
  "valueOf (Finite r) = r"
| "valueOf _ = 0"

text \<open>\<open>n > 0\<close> on a number: false for \<open>NaN\<close>.\<close>

fun positive :: "number \<Rightarrow> bool" where
  "positive (Finite r) = (0 < r)"
| "positive PosInfinity = True"
| "positive _ = False"

text \<open>
  \<open>String.prototype.trim\<close> removes, at both ends, the code units of ECMAScript's
  \<open>WhiteSpace\<close> and \<open>LineTerminator\<close>: TAB, LF, VT, FF, CR, SPACE, U+00A0 (no-break
  space), U+1680, U+2000 to U+200A, U+2028, U+2029, U+202F, U+205F, U+3000 and U+FEFF.
\<close>

definition isWhiteSpace :: "nat \<Rightarrow> bool" where
  "isWhiteSpace c =
     (c \<in> set [0x0009, 0x000A, 0x000B, 0x000C, 0x000D, 0x0020, 0x00A0, 0x1680,
                0x2028, 0x2029, 0x202F, 0x205F, 0x3000, 0xFEFF]
      \<or> (0x2000 \<le> c \<and> c \<le> 0x200A))"

definition trim :: "jsstring \<Rightarrow> jsstring" where
  "trim s = rev (dropWhile isWhiteSpace (rev (dropWhile isWhiteSpace s)))"

text \<open>\<open>s.split(/[ ,]+/)\<close>: the pieces between the maximal runs of separators (SPACE,
  U+0020, and COMMA, U+002C), an empty piece before a leading and after a trailing run.\<close>

definition isSeparator :: "nat \<Rightarrow> bool" where
  "isSeparator c = (c = 0x0020 \<or> c = 0x002C)"

function splitRuns :: "(nat \<Rightarrow> bool) \<Rightarrow> jsstring \<Rightarrow> jsstring list" where
  "splitRuns p [] = [[]]"
| "splitRuns p (c # cs) =
     (if p c then [] # splitRuns p (dropWhile p cs)
      else (case splitRuns p cs of [] \<Rightarrow> [[c]] | t # ts \<Rightarrow> (c # t) # ts))"
  by pat_completeness auto
termination
  by (relation "measure (\<lambda>(p, s). length s)") (auto simp: le_imp_less_Suc length_dropWhile_le)

text \<open>\<open>querySelector\<close> with a type selector: the first element of that name in document
  order.  \<open>removeScripts\<close> is \<open>querySelectorAll("script").forEach(n => n.remove())\<close> on the
  children of the element.\<close>

fun querySelectorNode :: "jsstring \<Rightarrow> node \<Rightarrow> node option"
  and querySelector :: "jsstring \<Rightarrow> node list \<Rightarrow> node option" where
  "querySelectorNode name (Element tag attrs children) =
     (if tag = name then Some (Element tag attrs children) else querySelector name children)"
| "querySelectorNode name (TextNode t) = None"
| "querySelectorNode name (Comment t) = None"
| "querySelector name [] = None"
| "querySelector name (n # ns) =
     (case querySelectorNode name n of Some e \<Rightarrow> Some e | None \<Rightarrow> querySelector name ns)"

fun removeScriptsNode :: "node \<Rightarrow> node"
  and removeScripts :: "node list \<Rightarrow> node list" where
  "removeScriptsNode (Element tag attrs children) = Element tag attrs (removeScripts children)"
| "removeScriptsNode (TextNode t) = TextNode t"
| "removeScriptsNode (Comment t) = Comment t"
| "removeScripts [] = []"
| "removeScripts (n # ns) =
     (case n of
        Element tag attrs children \<Rightarrow>
          if tag = codeUnits ''script'' then removeScripts ns
          else removeScriptsNode n # removeScripts ns
      | _ \<Rightarrow> n # removeScripts ns)"

fun getAttribute :: "node \<Rightarrow> jsstring \<Rightarrow> jsstring option" where
  "getAttribute (Element tag attrs children) name = map_of attrs name"
| "getAttribute _ name = None"

fun childNodes :: "node \<Rightarrow> node list" where
  "childNodes (Element tag attrs children) = children"
| "childNodes _ = []"

definition viewBoxParts :: "runtime \<Rightarrow> jsstring \<Rightarrow> number list" where
  "viewBoxParts rt vb =
     map (js_Number rt) (filter (\<lambda>s. s \<noteq> []) (map trim (splitRuns isSeparator vb)))"

text \<open>The first \<open>if\<close>: the size taken from the \<open>viewBox\<close> attribute, \<open>(0, 0)\<close> when it sets
  none.\<close>

definition viewBoxSize :: "runtime \<Rightarrow> node \<Rightarrow> real \<times> real" where
  "viewBoxSize rt svgEl =
     (case getAttribute svgEl (codeUnits ''viewBox'') of
        None \<Rightarrow> (0, 0)
      | Some vb \<Rightarrow>
          if vb = [] then (0, 0)
          else (let parts = viewBoxParts rt vb
                in if length parts = 4 \<and> list_all isFinite parts
                   then (valueOf (parts ! 2), valueOf (parts ! 3))
                   else (0, 0)))"

text \<open>The second \<open>if\<close>: the \<open>width\<close> and \<open>height\<close> attributes, else 100 by 100.\<close>

definition attributeSize :: "runtime \<Rightarrow> node \<Rightarrow> real \<times> real" where
  "attributeSize rt svgEl =
     (let wAttr = (case getAttribute svgEl (codeUnits ''width'') of None \<Rightarrow> [] | Some a \<Rightarrow> a);
          hAttr = (case getAttribute svgEl (codeUnits ''height'') of None \<Rightarrow> [] | Some a \<Rightarrow> a);
          w = js_parseFloat rt wAttr;
          h = js_parseFloat rt hAttr
      in if isFinite w \<and> isFinite h \<and> positive w \<and> positive h
         then (valueOf w, valueOf h)
         else (100, 100))"

definition parseSvgText :: "runtime \<Rightarrow> jsstring \<Rightarrow> svg_error + parsed_svg" where
  "parseSvgText rt svgText =
     (let trimmed = trim svgText;
          doc = parseFromString rt trimmed
      in if querySelector (codeUnits ''parsererror'') doc \<noteq> None then Inl InvalidSvgParserError
         else (case querySelector (codeUnits ''svg'') doc of
                 None \<Rightarrow> Inl InvalidSvgMissingSvg
               | Some svgEl \<Rightarrow>
                   (let (vbW0, vbH0) = viewBoxSize rt svgEl;
                        (vbW1, vbH1) =
                          (if \<not> (vbW0 > 0 \<and> vbH0 > 0) then attributeSize rt svgEl
                           else (vbW0, vbH0));
                        inner1 = innerHTML rt (removeScripts (childNodes svgEl))
                    in if trim inner1 = [] then Inl NoDrawableContent
                       else Inr \<lparr>inner = inner1, vbW = vbW1, vbH = vbH1\<rparr>)))"

text \<open>The size rule in the specification's words: the third and fourth components of a
  four-number \<open>viewBox\<close> when both are positive, else the \<open>width\<close> and \<open>height\<close> attributes
  when both are positive numbers, else 100 by 100.  The arguments are what the document
  declares, \<open>None\<close> for a declaration that is absent or not numeric.\<close>

definition specIntrinsicSize ::
  "(real \<times> real) option \<Rightarrow> (real \<times> real) option \<Rightarrow> real \<times> real" where
  "specIntrinsicSize viewBox attrs =
     (let fromAttrs =
            (case attrs of
               Some (aw, ah) \<Rightarrow> if 0 < aw \<and> 0 < ah then (aw, ah) else (100, 100)
             | None \<Rightarrow> (100, 100))
      in case viewBox of
           Some (w, h) \<Rightarrow> if 0 < w \<and> 0 < h then (w, h) else fromAttrs
         | None \<Rightarrow> fromAttrs)"

definition declaredViewBox :: "runtime \<Rightarrow> node \<Rightarrow> (real \<times> real) option" where
  "declaredViewBox rt svgEl =
     (case getAttribute svgEl (codeUnits ''viewBox'') of
        None \<Rightarrow> None
      | Some vb \<Rightarrow>
          (case viewBoxParts rt vb of
             [Finite a, Finite b, Finite w, Finite h] \<Rightarrow> Some (w, h)
           | _ \<Rightarrow> None))"

definition declaredAttrs :: "runtime \<Rightarrow> node \<Rightarrow> (real \<times> real) option" where
  "declaredAttrs rt svgEl =
     (case (js_parseFloat rt (case getAttribute svgEl (codeUnits ''width'') of None \<Rightarrow> [] | Some a \<Rightarrow> a),
            js_parseFloat rt (case getAttribute svgEl (codeUnits ''height'') of None \<Rightarrow> [] | Some a \<Rightarrow> a)) of
        (Finite w, Finite h) \<Rightarrow> Some (w, h)
      | _ \<Rightarrow> None)"

section \<open>Editor state and plan updates (App.tsx)\<close>

datatype endpoint = EndA | EndB

text \<open>\<open>DragState\<close>: \<open>null\<close>, or one of the three drag modes with the data it captured.\<close>

datatype DragState =
    NoDrag
  | PanDrag Pt ViewState
  | HandleDrag string endpoint
  | AssetDrag string Pt Pt

text \<open>The state hooks the handlers below read and write (\<open>plan\<close>, \<open>selection\<close>, \<open>view\<close>,
  and the \<open>dragRef\<close> slot).\<close>

record AppState =
  st_plan :: Plan
  st_selection :: Selection
  st_view :: ViewState
  st_drag :: DragState

definition GRID :: real where
  "GRID = 20"

definition SCALE_PX_PER_M :: real where
  "SCALE_PX_PER_M = 100"

definition initialState :: AppState where
  "initialState =
     \<lparr>st_plan =
        \<lparr>walls =
           [\<lparr>wall_id = ''w1'', wall_a = \<lparr>pt_x = 100, pt_y = 100\<rparr>, wall_b = \<lparr>pt_x = 700, pt_y = 100\<rparr>\<rparr>,
            \<lparr>wall_id = ''w2'', wall_a = \<lparr>pt_x = 700, pt_y = 100\<rparr>, wall_b = \<lparr>pt_x = 700, pt_y = 500\<rparr>\<rparr>,
            \<lparr>wall_id = ''w3'', wall_a = \<lparr>pt_x = 700, pt_y = 500\<rparr>, wall_b = \<lparr>pt_x = 100, pt_y = 500\<rparr>\<rparr>,
            \<lparr>wall_id = ''w4'', wall_a = \<lparr>pt_x = 100, pt_y = 500\<rparr>, wall_b = \<lparr>pt_x = 100, pt_y = 100\<rparr>\<rparr>,
            \<lparr>wall_id = ''w5'', wall_a = \<lparr>pt_x = 400, pt_y = 100\<rparr>, wall_b = \<lparr>pt_x = 400, pt_y = 500\<rparr>\<rparr>],
         assets = []\<rparr>,
      st_selection = WallSelection ''w1'',
      st_view = \<lparr>view_x = 0, view_y = 0, view_scale = 1\<rparr>,
      st_drag = NoDrag\<rparr>"

definition updateWallEndpoint :: "string \<Rightarrow> endpoint \<Rightarrow> Pt \<Rightarrow> Plan \<Rightarrow> Plan" where
  "updateWallEndpoint wid which next p =
     p\<lparr>walls :=
         map (\<lambda>w. if wall_id w = wid
                   then (case which of EndA \<Rightarrow> w\<lparr>wall_a := next\<rparr> | EndB \<Rightarrow> w\<lparr>wall_b := next\<rparr>)
                   else w)
             (walls p)\<rparr>"

text \<open>\<open>updateAsset(id, patch)\<close>; the patch is the function \<open>a \<mapsto> {...a, ...patch}\<close>.\<close>

definition updateAsset :: "string \<Rightarrow> (SvgAsset \<Rightarrow> SvgAsset) \<Rightarrow> Plan \<Rightarrow> Plan" where
  "updateAsset aid patch p =
     p\<lparr>assets := map (\<lambda>a. if asset_id a = aid then patch a else a) (assets p)\<rparr>"

section \<open>View and camera (App.tsx)\<close>

text \<open>The bounding rectangle of the canvas; \<open>None\<close> stands for \<open>svgRef.current\<close> being
  null.  The handlers divide by \<open>view.scale\<close>; the model is the code for every view whose
  scale is not 0 (division by 0 is \<open>Infinity\<close> or \<open>NaN\<close> in JavaScript and 0 in HOL).\<close>

record DOMRect =
  rect_left :: real
  rect_top :: real

definition clientToWorld :: "DOMRect option \<Rightarrow> ViewState \<Rightarrow> Pt \<Rightarrow> Pt" where
  "clientToWorld svg view client =
     (case svg of
        None \<Rightarrow> \<lparr>pt_x = 0, pt_y = 0\<rparr>
      | Some rect \<Rightarrow>
          (let sx = pt_x client - rect_left rect;
               sy = pt_y client - rect_top rect
           in \<lparr>pt_x = (sx - view_x view) / view_scale view,
               pt_y = (sy - view_y view) / view_scale view\<rparr>))"

text \<open>The transform the canvas group is rendered with,
  \<open>translate(view.x view.y) scale(view.scale)\<close>: where a world point lands on the canvas.\<close>

definition worldToScreen :: "ViewState \<Rightarrow> Pt \<Rightarrow> Pt" where
  "worldToScreen view p =
     \<lparr>pt_x = pt_x p * view_scale view + view_x view,
      pt_y = pt_y p * view_scale view + view_y view\<rparr>"

definition onWheel :: "DOMRect option \<Rightarrow> Pt \<Rightarrow> real \<Rightarrow> ViewState \<Rightarrow> ViewState" where
  "onWheel svg client deltaY view =
     (case svg of
        None \<Rightarrow> view
      | Some rect \<Rightarrow>
          (let pointer = \<lparr>pt_x = pt_x client - rect_left rect, pt_y = pt_y client - rect_top rect\<rparr>;
               scaleBy = 108 / 100;
               direction = (if deltaY > 0 then - 1 else 1 :: int);
               newScale =
                 clamp (view_scale view * (if direction > 0 then scaleBy else 1 / scaleBy)) (2 / 10) 6;
               mousePointTo =
                 \<lparr>pt_x = (pt_x pointer - view_x view) / view_scale view,
                  pt_y = (pt_y pointer - view_y view) / view_scale view\<rparr>;
               newPos =
                 \<lparr>pt_x = pt_x pointer - pt_x mousePointTo * newScale,
                  pt_y = pt_y pointer - pt_y mousePointTo * newScale\<rparr>
           in \<lparr>view_x = pt_x newPos, view_y = pt_y newPos, view_scale = newScale\<rparr>))"

section \<open>Interaction controller (App.tsx)\<close>

text \<open>
  What a pointer-down lands on.  The wall line, the endpoint handle and the asset group
  have handlers of their own that stop propagation; every other element lets the event
  bubble to the canvas handler, which reads the element's \<open>data-role\<close>.
\<close>

datatype hit =
    HitCanvas "string option"
  | HitWallLine Wall
  | HitHandle Wall endpoint
  | HitAsset SvgAsset

definition onPointerDownBackground :: "string option \<Rightarrow> Pt \<Rightarrow> AppState \<Rightarrow> AppState" where
  "onPointerDownBackground role client st =
     (if (case role of None \<Rightarrow> False | Some r \<Rightarrow> r \<noteq> [] \<and> r \<noteq> ''background'') then st
      else st\<lparr>st_drag := PanDrag \<lparr>pt_x = pt_x client, pt_y = pt_y client\<rparr> (st_view st)\<rparr>)"

definition onPointerDown :: "DOMRect option \<Rightarrow> hit \<Rightarrow> Pt \<Rightarrow> AppState \<Rightarrow> AppState" where
  "onPointerDown svg h client st =
     (case h of
        HitCanvas role \<Rightarrow> onPointerDownBackground role client st
      | HitWallLine w \<Rightarrow> st\<lparr>st_selection := WallSelection (wall_id w)\<rparr>
      | HitHandle w which \<Rightarrow>
          st\<lparr>st_selection := WallSelection (wall_id w), st_drag := HandleDrag (wall_id w) which\<rparr>
      | HitAsset a \<Rightarrow>
          (let startWorld = clientToWorld svg (st_view st) client
           in st\<lparr>st_selection := AssetSelection (asset_id a),
                 st_drag := AssetDrag (asset_id a) startWorld \<lparr>pt_x = asset_x a, pt_y = asset_y a\<rparr>\<rparr>))"

definition onPointerMove :: "DOMRect option \<Rightarrow> Pt \<Rightarrow> AppState \<Rightarrow> AppState" where
  "onPointerMove svg client st =
     (case st_drag st of
        NoDrag \<Rightarrow> st
      | PanDrag startClient startView \<Rightarrow>
          (let dx = pt_x client - pt_x startClient;
               dy = pt_y client - pt_y startClient
           in st\<lparr>st_view := \<lparr>view_x = view_x startView + dx, view_y = view_y startView + dy,
                              view_scale = view_scale startView\<rparr>\<rparr>)
      | HandleDrag wallId which \<Rightarrow>
          (let world = clientToWorld svg (st_view st) client;
               snapped = snapToGrid world GRID
           in st\<lparr>st_plan := updateWallEndpoint wallId which snapped (st_plan st)\<rparr>)
      | AssetDrag assetId startWorld startPos \<Rightarrow>
          (let world = clientToWorld svg (st_view st) client;
               dx = pt_x world - pt_x startWorld;
               dy = pt_y world - pt_y startWorld;
               next = snapToGrid \<lparr>pt_x = pt_x startPos + dx, pt_y = pt_y startPos + dy\<rparr> GRID
           in st\<lparr>st_plan :=
                   updateAsset assetId (\<lambda>a. a\<lparr>asset_x := pt_x next, asset_y := pt_y next\<rparr>)
                     (st_plan st)\<rparr>))"

definition onPointerUp :: "AppState \<Rightarrow> AppState" where
  "onPointerUp st = st\<lparr>st_drag := NoDrag\<rparr>"

text \<open>\<open>addSymbol\<close>: the chosen entry of \<open>SYMBOLS\<close> and the result of \<open>uid("asset")\<close> are
  arguments; a symbol that does not parse leaves the state as it is.\<close>

record symbol =
  symbol_name :: string
  symbol_svg :: jsstring
  symbol_defaultWidthM :: real

definition addSymbol :: "runtime \<Rightarrow> string \<Rightarrow> symbol \<Rightarrow> AppState \<Rightarrow> AppState" where
  "addSymbol rt newId smb st =
     (case parseSvgText rt (symbol_svg smb) of
        Inl err \<Rightarrow> st
      | Inr parsed \<Rightarrow>
          (let desiredWidthPx = metersToPx (symbol_defaultWidthM smb) SCALE_PX_PER_M;
               scale = desiredWidthPx / vbW parsed;
               pos = snapToGrid \<lparr>pt_x = 140, pt_y = 140\<rparr> GRID;
               asset =
                 \<lparr>asset_id = newId, asset_name = symbol_name smb, asset_inner = inner parsed,
                  asset_vbW = vbW parsed, asset_vbH = vbH parsed,
                  asset_x = pt_x pos, asset_y = pt_y pos, asset_scale = scale,
                  asset_rotationDeg = 0\<rparr>
           in st\<lparr>st_plan := (st_plan st)\<lparr>assets := assets (st_plan st) @ [asset]\<rparr>,
                 st_selection := AssetSelection (asset_id asset),
                 st_view :=
                   (st_view st)\<lparr>view_x := 600 - asset_x asset * view_scale (st_view st),
                                 view_y := 400 - asset_y asset * view_scale (st_view st)\<rparr>\<rparr>))"

text \<open>The events of an editing session, and the controller as a transition function.\<close>

datatype event =
    PointerDown hit Pt
  | PointerMove Pt
  | PointerUp
  | Wheel Pt real
  | AddSymbol string symbol

record environment =
  env_svg :: "DOMRect option"
  env_runtime :: runtime

fun step :: "environment \<Rightarrow> AppState \<Rightarrow> event \<Rightarrow> AppState" where
  "step env st (PointerDown h client) = onPointerDown (env_svg env) h client st"
| "step env st (PointerMove client) = onPointerMove (env_svg env) client st"
| "step env st PointerUp = onPointerUp st"
| "step env st (Wheel client deltaY) = st\<lparr>st_view := onWheel (env_svg env) client deltaY (st_view st)\<rparr>"
| "step env st (AddSymbol newId smb) = addSymbol (env_runtime env) newId smb st"

definition run :: "environment \<Rightarrow> AppState \<Rightarrow> event list \<Rightarrow> AppState" where
  "run env st evs = foldl (step env) st evs"

text \<open>The range the zoom keeps the scale in, and the states in which both the view and a
  view captured by a pan are inside it.\<close>

definition scaleInRange :: "real \<Rightarrow> bool" where
  "scaleInRange s = (2 / 10 \<le> s \<and> s \<le> 6)"

definition scaleOk :: "AppState \<Rightarrow> bool" where
  "scaleOk st =
     (scaleInRange (view_scale (st_view st))
      \<and> (case st_drag st of PanDrag c v \<Rightarrow> scaleInRange (view_scale v) | _ \<Rightarrow> True))"

section \<open>Properties of the geometry kernel\<close>

lemma hypot_scale: "hypot (u * k) (v * k) = \<bar>k\<bar> * hypot u v"
proof -
  have "(u * k) * (u * k) + (v * k) * (v * k) = (k * k) * (u * u + v * v)"
    by (simp add: algebra_simps)
  then show ?thesis
    by (simp add: hypot_def real_sqrt_mult)
qed

lemma hypot_zero_iff: "hypot u v = 0 \<longleftrightarrow> u = 0 \<and> v = 0"
  by (simp add: hypot_def sum_squares_eq_zero_iff)

lemma hypot_nonneg: "0 \<le> hypot u v"
  by (simp add: hypot_def)

lemma hypot_swap: "hypot (u - u') (v - v') = hypot (u' - u) (v' - v)"
proof -
  have "(u - u') * (u - u') + (v - v') * (v - v') = (u' - u) * (u' - u) + (v' - v) * (v' - v)"
    by (simp add: algebra_simps)
  then show ?thesis
    by (simp only: hypot_def)
qed

lemma dist_pt_sym: "dist_pt a b = dist_pt b a"
  unfolding dist_pt_def Let_def by (rule hypot_swap)

lemma dist_pt_zero_iff: "dist_pt (a::Pt) b = 0 \<longleftrightarrow> a = b"
  by (auto simp: dist_pt_def hypot_zero_iff)

lemma dist_pt_nonneg: "0 \<le> dist_pt a b"
  by (simp add: dist_pt_def hypot_nonneg)

lemma setLengthFromA_distinct:
  assumes "a \<noteq> (b::Pt)"
  shows "setLengthFromA a b L =
           \<lparr>pt_x = pt_x a + (L / dist_pt a b) * (pt_x b - pt_x a),
            pt_y = pt_y a + (L / dist_pt a b) * (pt_y b - pt_y a)\<rparr>"
proof -
  have d: "dist_pt a b = hypot (pt_x b - pt_x a) (pt_y b - pt_y a)"
    unfolding dist_pt_def Let_def by (rule hypot_swap)
  have nz: "hypot (pt_x b - pt_x a) (pt_y b - pt_y a) \<noteq> 0"
    using assms dist_pt_zero_iff [of a b] by (simp add: d)
  show ?thesis
    using nz by (simp add: setLengthFromA_def Let_def d mult.commute)
qed

lemma setLengthFromA_dist:
  assumes "a \<noteq> (b::Pt)" and "0 \<le> L"
  shows "dist_pt a (setLengthFromA a b L) = L"
proof -
  define d where "d = dist_pt a b"
  define s where "s = L / d"
  have dpos: "0 < d"
    using assms(1) dist_pt_zero_iff [of a b] dist_pt_nonneg [of a b]
    by (simp add: d_def less_le)
  have s: "0 \<le> s"
    using assms(2) dpos by (simp add: s_def)
  have e1: "pt_x a - (pt_x a + s * (pt_x b - pt_x a)) = (pt_x a - pt_x b) * s"
    by (simp add: algebra_simps)
  have e2: "pt_y a - (pt_y a + s * (pt_y b - pt_y a)) = (pt_y a - pt_y b) * s"
    by (simp add: algebra_simps)
  have "setLengthFromA a b L =
          \<lparr>pt_x = pt_x a + s * (pt_x b - pt_x a), pt_y = pt_y a + s * (pt_y b - pt_y a)\<rparr>"
    unfolding s_def d_def by (rule setLengthFromA_distinct [OF assms(1)])
  then have "dist_pt a (setLengthFromA a b L) =
          hypot ((pt_x a - pt_x b) * s) ((pt_y a - pt_y b) * s)"
    by (simp only: dist_pt_def Let_def Pt.simps e1 e2)
  also have "\<dots> = \<bar>s\<bar> * hypot (pt_x a - pt_x b) (pt_y a - pt_y b)"
    by (rule hypot_scale)
  also have "\<dots> = s * d"
    using s by (simp add: dist_pt_def d_def)
  also have "\<dots> = L"
    using dpos by (simp add: s_def)
  finally show ?thesis .
qed

lemma setLengthFromA_same: "setLengthFromA a a L = (a::Pt)"
  by (simp add: setLengthFromA_def)

text \<open>
  Claim C1, as the code has it.  For distinct points \<open>a\<close> and \<open>b\<close> and a length
  \<open>newLen \<ge> 0\<close>, \<open>setLengthFromA a b newLen\<close> is the point \<open>a + t (b - a)\<close> with
  \<open>t = newLen / dist a b \<ge> 0\<close>, so it lies on the ray from \<open>a\<close> through \<open>b\<close>, and its
  distance from \<open>a\<close> is exactly \<open>newLen\<close>.  When the two points coincide the guard
  \<open>|| 1\<close> only avoids the division by zero: the result is \<open>a\<close> itself, for every length.
\<close>

theorem setLengthFromA_anchor:
  "(a \<noteq> (b::Pt) \<and> 0 \<le> newLen \<longrightarrow>
      dist_pt a (setLengthFromA a b newLen) = newLen
      \<and> setLengthFromA a b newLen =
          \<lparr>pt_x = pt_x a + (newLen / dist_pt a b) * (pt_x b - pt_x a),
           pt_y = pt_y a + (newLen / dist_pt a b) * (pt_y b - pt_y a)\<rparr>
      \<and> 0 \<le> newLen / dist_pt a b)
   \<and> setLengthFromA a a newLen = a"
proof (intro conjI impI)
  assume h: "a \<noteq> b \<and> 0 \<le> newLen"
  show "dist_pt a (setLengthFromA a b newLen) = newLen"
    using h by (simp add: setLengthFromA_dist)
  show "setLengthFromA a b newLen =
          \<lparr>pt_x = pt_x a + (newLen / dist_pt a b) * (pt_x b - pt_x a),
           pt_y = pt_y a + (newLen / dist_pt a b) * (pt_y b - pt_y a)\<rparr>"
    using h by (intro setLengthFromA_distinct) simp
  show "0 \<le> newLen / dist_pt a b"
    using h dist_pt_nonneg [of a b] by simp
next
  show "setLengthFromA a a newLen = a"
    by (rule setLengthFromA_same)
qed

theorem setLengthFromA_anchor_witness:
  "dist_pt \<lparr>pt_x = 0, pt_y = 0\<rparr>
     (setLengthFromA \<lparr>pt_x = 0, pt_y = 0\<rparr> \<lparr>pt_x = 10, pt_y = 0\<rparr> 25) = 25
   \<and> setLengthFromA \<lparr>pt_x = 3, pt_y = 4\<rparr> \<lparr>pt_x = 3, pt_y = 4\<rparr> 25 = \<lparr>pt_x = 3, pt_y = 4\<rparr>"
proof -
  have h: "\<lparr>pt_x = 0, pt_y = 0\<rparr> \<noteq> \<lparr>pt_x = 10, pt_y = 0\<rparr> \<and> (0::real) \<le> 25"
    by simp
  show ?thesis
    using h setLengthFromA_anchor [of "\<lparr>pt_x = 0, pt_y = 0\<rparr>" "\<lparr>pt_x = 10, pt_y = 0\<rparr>" 25]
      setLengthFromA_anchor [of "\<lparr>pt_x = 3, pt_y = 4\<rparr>" "\<lparr>pt_x = 3, pt_y = 4\<rparr>" 25]
    by blast
qed

text \<open>Claim C1 as stated fails where the two points coincide: with \<open>a = b = (0, 0)\<close> and
  length 5 the result is \<open>(0, 0)\<close>, at distance 0 from \<open>a\<close>, not 5.\<close>

theorem setLengthFromA_coincident_counterexample:
  "(0::real) \<le> 5
   \<and> dist_pt \<lparr>pt_x = 0, pt_y = 0\<rparr>
        (setLengthFromA \<lparr>pt_x = 0, pt_y = 0\<rparr> \<lparr>pt_x = 0, pt_y = 0\<rparr> 5) \<noteq> 5"
  by (simp add: setLengthFromA_def dist_pt_def hypot_def)

lemma Math_round_bounds: "Math_round q - 1 / 2 \<le> q \<and> q < Math_round q + 1 / 2"
  unfolding Math_round_def by linarith

lemma Math_round_nearest: "\<bar>Math_round q - q\<bar> \<le> \<bar>of_int k - q\<bar>"
proof -
  define r where "r = \<lfloor>q + 1 / 2\<rfloor>"
  have b: "of_int r - 1 / 2 \<le> q \<and> q < of_int r + 1 / 2"
    using Math_round_bounds [of q] by (simp add: Math_round_def r_def)
  consider "k = r" | "k + 1 \<le> r" | "r + 1 \<le> k"
    by linarith
  then have "\<bar>of_int r - q\<bar> \<le> \<bar>of_int k - q\<bar>"
  proof cases
    case 1
    then show ?thesis by simp
  next
    case 2
    then have "(of_int k :: real) + 1 \<le> of_int r"
      by (metis of_int_1 of_int_add of_int_le_iff)
    with b show ?thesis by linarith
  next
    case 3
    then have "(of_int r :: real) + 1 \<le> of_int k"
      by (metis of_int_1 of_int_add of_int_le_iff)
    with b show ?thesis by linarith
  qed
  then show ?thesis
    by (simp add: Math_round_def r_def)
qed

lemma Math_round_of_int: "Math_round (of_int k) = of_int k"
proof -
  have "\<lfloor>(of_int k :: real) + 1 / 2\<rfloor> = k"
    by (rule floor_unique) simp_all
  then show ?thesis
    by (simp only: Math_round_def)
qed

lemma Math_round_tie: "Math_round (of_int k + 1 / 2) = of_int (k + 1)"
proof -
  have "\<lfloor>(of_int k :: real) + 1 / 2 + 1 / 2\<rfloor> = k + 1"
    by (rule floor_unique) simp_all
  then show ?thesis
    by (simp only: Math_round_def)
qed

lemma snap_axis_multiple: "\<exists>k::int. Math_round (v / g) * g = of_int k * g"
  unfolding Math_round_def by blast

lemma snap_axis_nearest:
  assumes "0 < g"
  shows "\<bar>Math_round (v / g) * g - v\<bar> \<le> \<bar>of_int k * g - v\<bar>"
proof -
  have v: "v = (v / g) * g"
    using assms by simp
  have "\<bar>Math_round (v / g) * g - (v / g) * g\<bar> = \<bar>Math_round (v / g) - v / g\<bar> * g"
    using assms by (simp add: left_diff_distrib [symmetric] abs_mult del: times_divide_eq_left)
  also have "\<dots> \<le> \<bar>of_int k - v / g\<bar> * g"
    using assms Math_round_nearest [of "v / g" k] by (simp add: mult_right_mono)
  also have "\<dots> = \<bar>of_int k * g - (v / g) * g\<bar>"
    using assms by (simp add: left_diff_distrib [symmetric] abs_mult del: times_divide_eq_left)
  finally show ?thesis
    using v by simp
qed

lemma snap_axis_tie:
  assumes "0 < g" and "v = of_int k * g + g / 2"
  shows "Math_round (v / g) * g = of_int (k + 1) * g"
proof -
  have "v / g = of_int k + 1 / 2"
    using assms by (simp add: field_simps)
  then show ?thesis
    by (simp only: Math_round_tie)
qed

lemma snap_axis_idem:
  assumes "0 < g"
  shows "Math_round (Math_round (v / g) * g / g) * g = Math_round (v / g) * g"
proof -
  have "Math_round (v / g) * g / g = of_int \<lfloor>v / g + 1 / 2\<rfloor>"
    using assms by (simp add: Math_round_def)
  then show ?thesis
    by (simp only: Math_round_of_int) (simp add: Math_round_def)
qed

text \<open>
  Claim C8, as the code has it.  For a positive grid size \<open>snapToGrid\<close> puts each
  coordinate, independently, on a multiple of the grid that is at least as near to it as
  every other multiple; a coordinate half-way between two multiples goes to the upper one
  (\<open>Math.round\<close> rounds a tie towards \<open>+\<infinity>\<close>, not away from zero); snapping is idempotent;
  and the point \<open>(17, 23)\<close> snaps to \<open>(20, 20)\<close> on the grid of size 20.
\<close>

theorem snapToGrid_nearest_multiple:
  assumes "0 < g"
  shows "(\<exists>k::int. pt_x (snapToGrid p g) = of_int k * g)
       \<and> (\<exists>k::int. pt_y (snapToGrid p g) = of_int k * g)
       \<and> (\<forall>k::int. \<bar>pt_x (snapToGrid p g) - pt_x p\<bar> \<le> \<bar>of_int k * g - pt_x p\<bar>)
       \<and> (\<forall>k::int. \<bar>pt_y (snapToGrid p g) - pt_y p\<bar> \<le> \<bar>of_int k * g - pt_y p\<bar>)
       \<and> (\<forall>k::int. pt_x p = of_int k * g + g / 2 \<longrightarrow> pt_x (snapToGrid p g) = of_int (k + 1) * g)
       \<and> (\<forall>k::int. pt_y p = of_int k * g + g / 2 \<longrightarrow> pt_y (snapToGrid p g) = of_int (k + 1) * g)
       \<and> snapToGrid (snapToGrid p g) g = snapToGrid p g
       \<and> snapToGrid \<lparr>pt_x = 17, pt_y = 23\<rparr> 20 = \<lparr>pt_x = 20, pt_y = 20\<rparr>"
proof (intro conjI allI impI)
  show "\<exists>k::int. pt_x (snapToGrid p g) = of_int k * g"
    by (simp only: snapToGrid_def Pt.simps snap_axis_multiple)
  show "\<exists>k::int. pt_y (snapToGrid p g) = of_int k * g"
    by (simp only: snapToGrid_def Pt.simps snap_axis_multiple)
  show "\<bar>pt_x (snapToGrid p g) - pt_x p\<bar> \<le> \<bar>of_int k * g - pt_x p\<bar>" for k :: int
    using snap_axis_nearest [OF assms] by (simp add: snapToGrid_def)
  show "\<bar>pt_y (snapToGrid p g) - pt_y p\<bar> \<le> \<bar>of_int k * g - pt_y p\<bar>" for k :: int
    using snap_axis_nearest [OF assms] by (simp add: snapToGrid_def)
  show "pt_x (snapToGrid p g) = of_int (k + 1) * g" if "pt_x p = of_int k * g + g / 2" for k :: int
    using snap_axis_tie [OF assms that] by (simp add: snapToGrid_def)
  show "pt_y (snapToGrid p g) = of_int (k + 1) * g" if "pt_y p = of_int k * g + g / 2" for k :: int
    using snap_axis_tie [OF assms that] by (simp add: snapToGrid_def)
  show "snapToGrid (snapToGrid p g) g = snapToGrid p g"
    using snap_axis_idem [OF assms] by (simp add: snapToGrid_def)
  show "snapToGrid \<lparr>pt_x = 17, pt_y = 23\<rparr> 20 = \<lparr>pt_x = 20, pt_y = 20\<rparr>"
    by (simp add: snapToGrid_def Math_round_def)
qed

theorem snapToGrid_nearest_multiple_witness:
  "(0::real) < 20
   \<and> snapToGrid (snapToGrid \<lparr>pt_x = 17, pt_y = 23\<rparr> 20) 20 = \<lparr>pt_x = 20, pt_y = 20\<rparr>
   \<and> \<bar>pt_x (snapToGrid \<lparr>pt_x = 17, pt_y = 23\<rparr> 20) - 17\<bar> \<le> \<bar>of_int 0 * 20 - 17\<bar>
   \<and> pt_x (snapToGrid \<lparr>pt_x = 30, pt_y = -30\<rparr> 20) = 40
   \<and> pt_y (snapToGrid \<lparr>pt_x = 30, pt_y = -30\<rparr> 20) = -20"
proof -
  have g: "(0::real) < 20"
    by simp
  have t1: "pt_x \<lparr>pt_x = 30, pt_y = - 30 :: real\<rparr> = of_int 1 * 20 + 20 / 2"
    by simp
  have t2: "pt_y \<lparr>pt_x = 30, pt_y = - 30 :: real\<rparr> = of_int (- 2) * 20 + 20 / 2"
    by simp
  show ?thesis
    using g t1 t2 snapToGrid_nearest_multiple [OF g, of "\<lparr>pt_x = 17, pt_y = 23\<rparr>"]
      snapToGrid_nearest_multiple [OF g, of "\<lparr>pt_x = 30, pt_y = -30\<rparr>"]
    by (simp add: snapToGrid_def Math_round_def)
qed

text \<open>Claim C8 as stated fails on a negative tie: \<open>x = -10\<close> on the grid of size 20 is
  snapped to \<open>0\<close> by the code, where rounding half away from zero gives \<open>-20\<close>.\<close>

theorem snapToGrid_negative_tie_counterexample:
  "(0::real) < 20
   \<and> pt_x (snapToGrid \<lparr>pt_x = - 10, pt_y = 0\<rparr> 20) = 0
   \<and> pt_x (snapToGrid_halfAway \<lparr>pt_x = - 10, pt_y = 0\<rparr> 20) = - 20
   \<and> snapToGrid \<lparr>pt_x = - 10, pt_y = 0\<rparr> 20 \<noteq> snapToGrid_halfAway \<lparr>pt_x = - 10, pt_y = 0\<rparr> 20"
  by (simp add: snapToGrid_def snapToGrid_halfAway_def Math_round_def roundHalfAwayFromZero_def)

section \<open>Properties of the view\<close>

lemma clamp_in_range: "lo \<le> hi \<Longrightarrow> lo \<le> clamp n lo hi \<and> clamp n lo hi \<le> hi"
  by (simp add: clamp_def)

lemma onWheel_scale: "scaleInRange (view_scale (onWheel (Some rect) client deltaY view))"
  using clamp_in_range [of "2 / 10" 6]
  by (simp add: onWheel_def Let_def scaleInRange_def)

text \<open>
  Claim C3.  For a view whose scale is in \<open>[0.2, 6]\<close>, a wheel event at any pointer
  position and with any \<open>deltaY\<close> (zooming in or out, clamped or not) yields a view
  under which the world point that was under the pointer is drawn at the pointer again:
  \<open>worldToScreen view' (clientToWorld view pointer)\<close> is the pointer's position on the
  canvas.  The new scale is inside \<open>[0.2, 6]\<close>.
\<close>

theorem onWheel_pivot_stationary:
  assumes "scaleInRange (view_scale view)"
  shows "worldToScreen (onWheel (Some rect) client deltaY view)
           (clientToWorld (Some rect) view client)
         = \<lparr>pt_x = pt_x client - rect_left rect, pt_y = pt_y client - rect_top rect\<rparr>
       \<and> scaleInRange (view_scale (onWheel (Some rect) client deltaY view))"
proof
  show "worldToScreen (onWheel (Some rect) client deltaY view)
           (clientToWorld (Some rect) view client)
         = \<lparr>pt_x = pt_x client - rect_left rect, pt_y = pt_y client - rect_top rect\<rparr>"
    by (simp add: worldToScreen_def onWheel_def clientToWorld_def Let_def)
  show "scaleInRange (view_scale (onWheel (Some rect) client deltaY view))"
    by (rule onWheel_scale)
qed

theorem onWheel_pivot_stationary_witness:
  "worldToScreen
     (onWheel (Some \<lparr>rect_left = 360, rect_top = 0\<rparr>) \<lparr>pt_x = 660, pt_y = 200\<rparr> (- 100)
        \<lparr>view_x = 10, view_y = 20, view_scale = 6\<rparr>)
     (clientToWorld (Some \<lparr>rect_left = 360, rect_top = 0\<rparr>)
        \<lparr>view_x = 10, view_y = 20, view_scale = 6\<rparr> \<lparr>pt_x = 660, pt_y = 200\<rparr>)
   = \<lparr>pt_x = 300, pt_y = 200\<rparr>
   \<and> view_scale
       (onWheel (Some \<lparr>rect_left = 360, rect_top = 0\<rparr>) \<lparr>pt_x = 660, pt_y = 200\<rparr> (- 100)
          \<lparr>view_x = 10, view_y = 20, view_scale = 6\<rparr>) = 6
   \<and> worldToScreen
     (onWheel (Some \<lparr>rect_left = 360, rect_top = 0\<rparr>) \<lparr>pt_x = 660, pt_y = 200\<rparr> 100
        \<lparr>view_x = 10, view_y = 20, view_scale = 1\<rparr>)
     (clientToWorld (Some \<lparr>rect_left = 360, rect_top = 0\<rparr>)
        \<lparr>view_x = 10, view_y = 20, view_scale = 1\<rparr> \<lparr>pt_x = 660, pt_y = 200\<rparr>)
   = \<lparr>pt_x = 300, pt_y = 200\<rparr>
   \<and> onWheel (Some \<lparr>rect_left = 360, rect_top = 0\<rparr>) \<lparr>pt_x = 660, pt_y = 200\<rparr> 100
        \<lparr>view_x = 10, view_y = 20, view_scale = 1\<rparr>
     = \<lparr>view_x = 850 / 27, view_y = 100 / 3, view_scale = 25 / 27\<rparr>"
proof -
  have h: "scaleInRange (view_scale \<lparr>view_x = 10, view_y = 20, view_scale = 6\<rparr>)"
    by (simp add: scaleInRange_def)
  have h1: "scaleInRange (view_scale \<lparr>view_x = 10, view_y = 20, view_scale = 1\<rparr>)"
    by (simp add: scaleInRange_def)
  have s: "view_scale
       (onWheel (Some \<lparr>rect_left = 360, rect_top = 0\<rparr>) \<lparr>pt_x = 660, pt_y = 200\<rparr> (- 100)
          \<lparr>view_x = 10, view_y = 20, view_scale = 6\<rparr>) = 6"
    by (simp add: onWheel_def clamp_def Let_def)
  have z: "onWheel (Some \<lparr>rect_left = 360, rect_top = 0\<rparr>) \<lparr>pt_x = 660, pt_y = 200\<rparr> 100
        \<lparr>view_x = 10, view_y = 20, view_scale = 1\<rparr>
     = \<lparr>view_x = 850 / 27, view_y = 100 / 3, view_scale = 25 / 27\<rparr>"
    by (simp add: onWheel_def clamp_def Let_def)
  show ?thesis
    using s z onWheel_pivot_stationary [OF h, of "\<lparr>rect_left = 360, rect_top = 0\<rparr>"
        "\<lparr>pt_x = 660, pt_y = 200\<rparr>" "- 100"]
      onWheel_pivot_stationary [OF h1, of "\<lparr>rect_left = 360, rect_top = 0\<rparr>"
        "\<lparr>pt_x = 660, pt_y = 200\<rparr>" "100"]
    by simp
qed

section \<open>Properties of the plan updates\<close>

text \<open>
  Claim C7.  When no wall of the plan has the given id, \<open>updateWallEndpoint\<close> returns a
  plan equal to the one it was given, for either endpoint and any point.
\<close>

theorem updateWallEndpoint_unknown_id:
  assumes "\<forall>w \<in> set (walls p). wall_id w \<noteq> wid"
  shows "updateWallEndpoint wid which next p = p"
proof -
  have "map (\<lambda>w. if wall_id w = wid
                   then (case which of EndA \<Rightarrow> w\<lparr>wall_a := next\<rparr> | EndB \<Rightarrow> w\<lparr>wall_b := next\<rparr>)
                   else w) (walls p) = walls p"
    using assms by (intro map_idI) simp
  then show ?thesis
    by (simp add: updateWallEndpoint_def)
qed

theorem updateWallEndpoint_unknown_id_witness:
  "updateWallEndpoint ''w9'' EndB \<lparr>pt_x = 20, pt_y = 20\<rparr> (st_plan initialState)
     = st_plan initialState
   \<and> length (walls (st_plan initialState)) = 5"
proof -
  have h: "\<forall>w \<in> set (walls (st_plan initialState)). wall_id w \<noteq> ''w9''"
    by (simp add: initialState_def)
  show ?thesis
    using updateWallEndpoint_unknown_id [OF h] by (simp add: initialState_def)
qed

section \<open>Properties of plan generation\<close>

lemma fallback_shape:
  "assets fallback = [] \<and> length (walls fallback) = 5
   \<and> closesRectangle (take 4 (walls fallback))
   \<and> partitionsRectangle (take 4 (walls fallback)) (walls fallback ! 4)"
  by (simp add: fallback_def closesRectangle_def partitionsRectangle_def)

lemma requestPlan_failure:
  assumes "res = FetchRejected
           \<or> (\<exists>body. res = FetchResponse False body)
           \<or> res = FetchResponse True None
           \<or> (\<exists>data. res = FetchResponse True (Some data)
                 \<and> \<not> truthy (getProp (getProp (Some data) ''plan'') ''walls''))"
  shows "\<exists>err. requestPlan res = Inl err"
  using assms by (auto simp: requestPlan_def split: option.splits)

text \<open>
  Claim C4.  Whatever the prompt, when the request fails (the fetch rejects, the
  response's status is not a success, its body is not JSON, or the decoded body has no
  truthy \<open>plan.walls\<close>) \<open>generatePlanFromText\<close> returns the built-in fallback plan:
  five walls, of which the first four close into an axis-parallel rectangle and the fifth
  runs between two opposite sides strictly inside it, and no assets.  The function has
  no failing outcome: every error of the \<open>try\<close> block ends in this value.
\<close>

theorem generatePlanFromText_fallback:
  assumes "fetch prompt = FetchRejected
           \<or> (\<exists>body. fetch prompt = FetchResponse False body)
           \<or> fetch prompt = FetchResponse True None
           \<or> (\<exists>data. fetch prompt = FetchResponse True (Some data)
                 \<and> \<not> truthy (getProp (getProp (Some data) ''plan'') ''walls''))"
  shows "generatePlanFromText fetch prompt = LocalPlan fallback
       \<and> assets fallback = [] \<and> length (walls fallback) = 5
       \<and> closesRectangle (take 4 (walls fallback))
       \<and> partitionsRectangle (take 4 (walls fallback)) (walls fallback ! 4)"
proof -
  obtain err where "requestPlan (fetch prompt) = Inl err"
    using requestPlan_failure [OF assms] by blast
  then have "generatePlanFromText fetch prompt = LocalPlan fallback"
    by (simp add: generatePlanFromText_def)
  then show ?thesis
    using fallback_shape by simp
qed

theorem generatePlanFromText_fallback_witness:
  "generatePlanFromText (\<lambda>p. FetchResponse True (Some (JObj [(''plan'', JObj [(''assets'', JArr [])])])))
     ''two rooms'' = LocalPlan fallback
   \<and> generatePlanFromText (\<lambda>p. FetchResponse False None) ''two rooms'' = LocalPlan fallback
   \<and> generatePlanFromText (\<lambda>p. FetchRejected) ''two rooms'' = LocalPlan fallback
   \<and> map wall_id (walls fallback) = [''w1'', ''w2'', ''w3'', ''w4'', ''w5'']"
proof -
  have a: "generatePlanFromText
      (\<lambda>p. FetchResponse True (Some (JObj [(''plan'', JObj [(''assets'', JArr [])])])))
      ''two rooms'' = LocalPlan fallback"
    using generatePlanFromText_fallback
      [of "\<lambda>p. FetchResponse True (Some (JObj [(''plan'', JObj [(''assets'', JArr [])])]))"
          "''two rooms''"]
    by simp
  have b: "generatePlanFromText (\<lambda>p. FetchResponse False None) ''two rooms'' = LocalPlan fallback"
    using generatePlanFromText_fallback [of "\<lambda>p. FetchResponse False None" "''two rooms''"]
    by simp
  have c: "generatePlanFromText (\<lambda>p. FetchRejected) ''two rooms'' = LocalPlan fallback"
    using generatePlanFromText_fallback [of "\<lambda>p. FetchRejected" "''two rooms''"]
    by simp
  show ?thesis
    using a b c by (simp add: fallback_def)
qed

section \<open>Properties of loading a document\<close>

lemma onLoadFile_fails_iff:
  "(\<exists>e. onLoadFile JSON_parse t = Inl e) \<longleftrightarrow>
     (JSON_parse t = None
      \<or> (\<exists>parsed. JSON_parse t = Some parsed \<and> \<not> truthy (getProp (Some parsed) ''plan'')))"
  by (auto simp: onLoadFile_def onLoadParsed_def split: option.splits)

lemma onLoadParsed_view:
  "onLoadParsed parsed = Inr r \<Longrightarrow>
     loaded_view r =
       (case getProp (Some parsed) ''view'' of
          None \<Rightarrow> defaultView
        | Some JNull \<Rightarrow> defaultView
        | Some v \<Rightarrow> v)"
  by (auto simp: onLoadParsed_def split: if_splits option.splits json.splits)

lemma onLoadParsed_prompt:
  "onLoadParsed parsed = Inr r \<Longrightarrow>
     loaded_prompt r =
       (case getProp (Some parsed) ''prompt'' of
          None \<Rightarrow> JStr []
        | Some JNull \<Rightarrow> JStr []
        | Some v \<Rightarrow> v)"
  by (auto simp: onLoadParsed_def split: if_splits option.splits json.splits)

text \<open>
  Claim C6 at the document \<open>{"plan": {}}\<close>.  The decoded value has no \<open>plan.walls\<close>
  sequence, and the handler does not fail: it tests \<open>parsed?.plan\<close> only, and installs the
  wall-less plan with the default view and the empty prompt.
\<close>


theorem onLoadParsed_plan_without_walls:
  "\<not> hasWallsSequence (JObj [(''plan'', JObj [])])
   \<and> onLoadParsed (JObj [(''plan'', JObj [])])
       = Inr \<lparr>loaded_plan = JObj [], loaded_view = defaultView, loaded_prompt = JStr [],
              loaded_selection = None\<rparr>"
  by (simp add: hasWallsSequence_def onLoadParsed_def)

section \<open>Properties of the interaction controller\<close>

lemma onWheel_scale_preserved:
  "scaleInRange (view_scale view) \<Longrightarrow> scaleInRange (view_scale (onWheel svg client deltaY view))"
  by (cases svg) (simp_all add: onWheel_scale, simp add: onWheel_def)

lemma onPointerDown_scaleOk: "scaleOk st \<Longrightarrow> scaleOk (onPointerDown svg h client st)"
  by (cases h)
    (auto simp: scaleOk_def onPointerDown_def onPointerDownBackground_def Let_def
          split: option.splits DragState.splits)

lemma onPointerMove_scaleOk: "scaleOk st \<Longrightarrow> scaleOk (onPointerMove svg client st)"
  by (cases "st_drag st") (auto simp: scaleOk_def onPointerMove_def Let_def)

lemma onPointerUp_scaleOk: "scaleOk st \<Longrightarrow> scaleOk (onPointerUp st)"
  by (simp add: scaleOk_def onPointerUp_def)

lemma addSymbol_view_scale:
  "view_scale (st_view (addSymbol rt newId smb st)) = view_scale (st_view st)
   \<and> st_drag (addSymbol rt newId smb st) = st_drag st"
  by (cases "parseSvgText rt (symbol_svg smb)") (simp_all add: addSymbol_def Let_def)

lemma addSymbol_scaleOk: "scaleOk st \<Longrightarrow> scaleOk (addSymbol rt newId smb st)"
  by (simp add: scaleOk_def addSymbol_view_scale)

lemma step_scaleOk: "scaleOk st \<Longrightarrow> scaleOk (step env st ev)"
proof (cases ev)
  case (Wheel client deltaY)
  assume "scaleOk st"
  then show ?thesis
    using onWheel_scale_preserved [of "st_view st" "env_svg env" client deltaY]
    by (simp add: Wheel scaleOk_def)
qed (simp_all add: onPointerDown_scaleOk onPointerMove_scaleOk onPointerUp_scaleOk addSymbol_scaleOk)

lemma run_scaleOk: "scaleOk st \<Longrightarrow> scaleOk (run env st evs)"
  unfolding run_def by (induction evs arbitrary: st) (simp_all add: step_scaleOk)

lemma initialState_scaleOk: "scaleOk initialState"
  by (simp add: scaleOk_def scaleInRange_def initialState_def)

lemma onPointerMove_pan:
  "st_drag st = PanDrag c v \<Longrightarrow> view_scale (st_view (onPointerMove svg client st)) = view_scale v"
  by (simp add: onPointerMove_def Let_def)

text \<open>
  Claim C2, as the code has it.  The clamp to \<open>[0.2, 6]\<close> sits in the wheel handler
  alone: a wheel zoom yields a scale in the range from any view with a numeric scale.  A
  pan move sets the scale captured when the pan began, and adding a symbol keeps the
  scale.  So from every state in which both the scale of the view and the scale of the
  view captured by an active pan are in the range (\<open>scaleOk\<close>), every sequence of pointer,
  wheel and add-symbol events leads to such a state again; the initial state is one.
  Loading a document installs the document's \<open>view\<close> as it is, unclamped, and the view
  \<open>{x: 0, y: 0, scale: 1}\<close> when the document has none.
\<close>

theorem view_scale_mutation_sites:
  "scaleInRange (view_scale (onWheel (Some rect) client deltaY view))
   \<and> (st_drag st = PanDrag c v \<longrightarrow>
        view_scale (st_view (onPointerMove svg client st)) = view_scale v)
   \<and> view_scale (st_view (addSymbol rt newId smb st)) = view_scale (st_view st)
   \<and> (scaleOk st \<longrightarrow> scaleOk (run env st evs))
   \<and> scaleOk (run env initialState evs)
   \<and> (onLoadParsed parsed = Inr r \<longrightarrow>
        loaded_view r =
          (case getProp (Some parsed) ''view'' of
             None \<Rightarrow> defaultView
           | Some JNull \<Rightarrow> defaultView
           | Some v \<Rightarrow> v))
   \<and> asViewState defaultView = Some \<lparr>view_x = 0, view_y = 0, view_scale = 1\<rparr>"
proof (intro conjI impI)
  show "scaleInRange (view_scale (onWheel (Some rect) client deltaY view))"
    by (rule onWheel_scale)
  show "view_scale (st_view (onPointerMove svg client st)) = view_scale v"
    if "st_drag st = PanDrag c v"
    using that by (rule onPointerMove_pan)
  show "view_scale (st_view (addSymbol rt newId smb st)) = view_scale (st_view st)"
    by (simp add: addSymbol_view_scale)
  show "scaleOk (run env st evs)" if "scaleOk st"
    using that by (rule run_scaleOk)
  show "scaleOk (run env initialState evs)"
    by (rule run_scaleOk [OF initialState_scaleOk])
  show "loaded_view r =
          (case getProp (Some parsed) ''view'' of
             None \<Rightarrow> defaultView
           | Some JNull \<Rightarrow> defaultView
           | Some v \<Rightarrow> v)"
    if "onLoadParsed parsed = Inr r"
    using that by (rule onLoadParsed_view)
  show "asViewState defaultView = Some \<lparr>view_x = 0, view_y = 0, view_scale = 1\<rparr>"
    by (simp add: asViewState_def defaultView_def)
qed

theorem view_scale_mutation_sites_witness:
  "scaleOk
     (run \<lparr>env_svg = Some \<lparr>rect_left = 360, rect_top = 0\<rparr>,
           env_runtime = \<lparr>parseFromString = (\<lambda>t. []), innerHTML = (\<lambda>ns. []),
                           js_Number = (\<lambda>t. NaN), js_parseFloat = (\<lambda>t. NaN)\<rparr>\<rparr>
        initialState
        [Wheel \<lparr>pt_x = 600, pt_y = 400\<rparr> (- 100),
         PointerDown (HitCanvas (Some ''background'')) \<lparr>pt_x = 500, pt_y = 300\<rparr>,
         PointerMove \<lparr>pt_x = 520, pt_y = 310\<rparr>,
         PointerUp])
   \<and> onLoadParsed (JObj [(''plan'', JObj [(''walls'', JArr [])])])
       = Inr \<lparr>loaded_plan = JObj [(''walls'', JArr [])], loaded_view = defaultView,
              loaded_prompt = JStr [], loaded_selection = None\<rparr>
   \<and> loaded_view \<lparr>loaded_plan = JObj [(''walls'', JArr [])], loaded_view = defaultView,
              loaded_prompt = JStr [], loaded_selection = None\<rparr> = defaultView"
proof -
  have l: "onLoadParsed (JObj [(''plan'', JObj [(''walls'', JArr [])])])
       = Inr \<lparr>loaded_plan = JObj [(''walls'', JArr [])], loaded_view = defaultView,
              loaded_prompt = JStr [], loaded_selection = None\<rparr>"
    by (simp add: onLoadParsed_def)
  show ?thesis
    using l view_scale_mutation_sites
      [where env = "\<lparr>env_svg = Some \<lparr>rect_left = 360, rect_top = 0\<rparr>,
           env_runtime = \<lparr>parseFromString = (\<lambda>t. []), innerHTML = (\<lambda>ns. []),
                           js_Number = (\<lambda>t. NaN), js_parseFloat = (\<lambda>t. NaN)\<rparr>\<rparr>"
         and evs = "[Wheel \<lparr>pt_x = 600, pt_y = 400\<rparr> (- 100),
           PointerDown (HitCanvas (Some ''background'')) \<lparr>pt_x = 500, pt_y = 300\<rparr>,
           PointerMove \<lparr>pt_x = 520, pt_y = 310\<rparr>,
           PointerUp]"
         and parsed = "JObj [(''plan'', JObj [(''walls'', JArr [])])]"
         and r = "\<lparr>loaded_plan = JObj [(''walls'', JArr [])], loaded_view = defaultView,
              loaded_prompt = JStr [], loaded_selection = None\<rparr>"]
    by simp
qed

text \<open>Claim C2 as stated fails for document load: a document whose view has scale 100
  loads, and the view handed to \<open>setView\<close> has scale 100, outside \<open>[0.2, 6]\<close>.\<close>

theorem onLoadParsed_scale_counterexample:
  "onLoadParsed
     (JObj [(''plan'', JObj [(''walls'', JArr []), (''assets'', JArr [])]),
            (''view'', JObj [(''x'', JNum 0), (''y'', JNum 0), (''scale'', JNum 100)])])
     = Inr \<lparr>loaded_plan = JObj [(''walls'', JArr []), (''assets'', JArr [])],
            loaded_view = JObj [(''x'', JNum 0), (''y'', JNum 0), (''scale'', JNum 100)],
            loaded_prompt = JStr [], loaded_selection = None\<rparr>
   \<and> asViewState (JObj [(''x'', JNum 0), (''y'', JNum 0), (''scale'', JNum 100)])
       = Some \<lparr>view_x = 0, view_y = 0, view_scale = 100\<rparr>
   \<and> \<not> scaleInRange (view_scale \<lparr>view_x = 0, view_y = 0, view_scale = 100\<rparr>)"
  by (simp add: onLoadParsed_def asViewState_def scaleInRange_def)

text \<open>
  Claim C9, as the code has it.  The controller has one drag slot, so at most one drag is
  active.  A pointer-down on the canvas background, on an endpoint handle or on an asset
  writes the slot whatever it held: the new drag is a pan, a handle drag or an asset drag
  according to what was hit, with no test that the controller is idle.  A pointer-down
  on a wall line, a pointer-move, a wheel event and adding a symbol leave the slot as it
  is, and a pointer-up clears it.
\<close>

theorem pointer_down_sets_drag:
  "st_drag (step env st (PointerDown (HitCanvas None) c)) = PanDrag c (st_view st)
   \<and> st_drag (step env st (PointerDown (HitCanvas (Some ''background'')) c)) = PanDrag c (st_view st)
   \<and> st_drag (step env st (PointerDown (HitHandle w which) c)) = HandleDrag (wall_id w) which
   \<and> st_drag (step env st (PointerDown (HitAsset a) c))
       = AssetDrag (asset_id a) (clientToWorld (env_svg env) (st_view st) c)
           \<lparr>pt_x = asset_x a, pt_y = asset_y a\<rparr>
   \<and> st_drag (step env st (PointerDown (HitWallLine w) c)) = st_drag st
   \<and> st_drag (step env st (PointerMove c)) = st_drag st
   \<and> st_drag (step env st (Wheel c deltaY)) = st_drag st
   \<and> st_drag (step env st (AddSymbol newId smb)) = st_drag st
   \<and> st_drag (step env st PointerUp) = NoDrag"
proof -
  have m: "st_drag (onPointerMove (env_svg env) c st) = st_drag st"
    by (cases "st_drag st") (simp_all add: onPointerMove_def Let_def)
  show ?thesis
    using m
    by (simp add: onPointerDown_def onPointerDownBackground_def onPointerUp_def Let_def
        addSymbol_view_scale)
qed

theorem pointer_down_sets_drag_witness:
  "st_drag
     (step \<lparr>env_svg = Some \<lparr>rect_left = 360, rect_top = 0\<rparr>,
            env_runtime = \<lparr>parseFromString = (\<lambda>t. []), innerHTML = (\<lambda>ns. []),
                            js_Number = (\<lambda>t. NaN), js_parseFloat = (\<lambda>t. NaN)\<rparr>\<rparr>
        initialState (PointerDown (HitCanvas None) \<lparr>pt_x = 500, pt_y = 300\<rparr>))
     = PanDrag \<lparr>pt_x = 500, pt_y = 300\<rparr> \<lparr>view_x = 0, view_y = 0, view_scale = 1\<rparr>"
  using pointer_down_sets_drag
    [of "\<lparr>env_svg = Some \<lparr>rect_left = 360, rect_top = 0\<rparr>,
            env_runtime = \<lparr>parseFromString = (\<lambda>t. []), innerHTML = (\<lambda>ns. []),
                            js_Number = (\<lambda>t. NaN), js_parseFloat = (\<lambda>t. NaN)\<rparr>\<rparr>"
        initialState "\<lparr>pt_x = 500, pt_y = 300\<rparr>"]
  by (simp add: initialState_def)

text \<open>Claim C9 as stated fails: from the initial state a pointer-down on the background
  starts a pan, and a second pointer-down, on the handle of wall \<open>w1\<close>, arriving while
  the pan is active replaces it with a handle drag.\<close>

theorem pointer_down_replaces_drag_counterexample:
  "st_drag
     (run \<lparr>env_svg = Some \<lparr>rect_left = 360, rect_top = 0\<rparr>,
           env_runtime = \<lparr>parseFromString = (\<lambda>t. []), innerHTML = (\<lambda>ns. []),
                           js_Number = (\<lambda>t. NaN), js_parseFloat = (\<lambda>t. NaN)\<rparr>\<rparr>
        initialState
        [PointerDown (HitCanvas (Some ''background'')) \<lparr>pt_x = 500, pt_y = 300\<rparr>])
     = PanDrag \<lparr>pt_x = 500, pt_y = 300\<rparr> \<lparr>view_x = 0, view_y = 0, view_scale = 1\<rparr>
   \<and> st_drag
     (run \<lparr>env_svg = Some \<lparr>rect_left = 360, rect_top = 0\<rparr>,
           env_runtime = \<lparr>parseFromString = (\<lambda>t. []), innerHTML = (\<lambda>ns. []),
                           js_Number = (\<lambda>t. NaN), js_parseFloat = (\<lambda>t. NaN)\<rparr>\<rparr>
        initialState
        [PointerDown (HitCanvas (Some ''background'')) \<lparr>pt_x = 500, pt_y = 300\<rparr>,
         PointerDown
           (HitHandle \<lparr>wall_id = ''w1'', wall_a = \<lparr>pt_x = 100, pt_y = 100\<rparr>,
                       wall_b = \<lparr>pt_x = 700, pt_y = 100\<rparr>\<rparr> EndA)
           \<lparr>pt_x = 460, pt_y = 100\<rparr>])
     = HandleDrag ''w1'' EndA"
  by (simp add: run_def onPointerDown_def onPointerDownBackground_def initialState_def)

section \<open>Properties of the symbol importer\<close>

lemma finite_positive_value: "isFinite n \<Longrightarrow> positive n \<Longrightarrow> 0 < valueOf n"
  by (cases n) simp_all

lemma attributeSize_positive:
  "0 < fst (attributeSize rt svgEl) \<and> 0 < snd (attributeSize rt svgEl)"
  by (simp add: attributeSize_def Let_def finite_positive_value)

lemma parseSvgText_size:
  assumes "parseSvgText rt svgText = Inr r"
  shows "\<exists>svgEl. querySelector (codeUnits ''svg'') (parseFromString rt (trim svgText)) = Some svgEl
           \<and> (vbW r, vbH r) =
               (if 0 < fst (viewBoxSize rt svgEl) \<and> 0 < snd (viewBoxSize rt svgEl)
                then viewBoxSize rt svgEl else attributeSize rt svgEl)"
  using assms
  by (auto simp: parseSvgText_def Let_def split: if_splits option.splits prod.splits)

text \<open>
  Claim C10.  Whenever \<open>parseSvgText\<close> returns a result, whatever the runtime's parser and
  number conversions make of the document's \<open>viewBox\<close>, \<open>width\<close> and \<open>height\<close>, both
  \<open>vbW\<close> and \<open>vbH\<close> of the result are strictly positive.
\<close>

theorem parseSvgText_positive_size:
  assumes "parseSvgText rt svgText = Inr r"
  shows "0 < vbW r \<and> 0 < vbH r"
proof -
  obtain svgEl where
    s: "(vbW r, vbH r) =
          (if 0 < fst (viewBoxSize rt svgEl) \<and> 0 < snd (viewBoxSize rt svgEl)
           then viewBoxSize rt svgEl else attributeSize rt svgEl)"
    using parseSvgText_size [OF assms] by blast
  show ?thesis
  proof (cases "0 < fst (viewBoxSize rt svgEl) \<and> 0 < snd (viewBoxSize rt svgEl)")
    case True
    with s have "(vbW r, vbH r) = viewBoxSize rt svgEl"
      by simp
    with True show ?thesis
      by (metis fst_conv snd_conv)
  next
    case False
    with s have "(vbW r, vbH r) = attributeSize rt svgEl"
      by simp
    with attributeSize_positive [of rt svgEl] show ?thesis
      by (metis fst_conv snd_conv)
  qed
qed

lemma four_finite_parts:
  "(case parts of [Finite a, Finite b, Finite w, Finite h] \<Rightarrow> Some (w, h) | _ \<Rightarrow> None)
     = (if length parts = 4 \<and> list_all isFinite parts
        then Some (valueOf (parts ! 2), valueOf (parts ! 3)) else None)"
proof (cases parts)
  case Nil
  then show ?thesis by simp
next
  case (Cons p1 l1)
  note c1 = Cons
  show ?thesis
  proof (cases l1)
    case Nil
    with c1 show ?thesis by (cases p1) simp_all
  next
    case (Cons p2 l2)
    note c2 = Cons
    show ?thesis
    proof (cases l2)
      case Nil
      with c1 c2 show ?thesis by (cases p1; cases p2) simp_all
    next
      case (Cons p3 l3)
      note c3 = Cons
      show ?thesis
      proof (cases l3)
        case Nil
        with c1 c2 c3 show ?thesis by (cases p1; cases p2; cases p3) simp_all
      next
        case (Cons p4 l4)
        note c4 = Cons
        show ?thesis
        proof (cases l4)
          case Nil
          with c1 c2 c3 c4 show ?thesis
            by (cases p1; cases p2; cases p3; cases p4) simp_all
        next
          case (Cons p5 l5)
          with c1 c2 c3 c4 show ?thesis
            by (cases p1; cases p2; cases p3; cases p4) simp_all
        qed
      qed
    qed
  qed
qed

lemma viewBoxParts_empty: "viewBoxParts rt [] = []"
  by (simp add: viewBoxParts_def trim_def)

lemma viewBoxSize_declared:
  "viewBoxSize rt svgEl = (case declaredViewBox rt svgEl of Some (w, h) \<Rightarrow> (w, h) | None \<Rightarrow> (0, 0))"
proof (cases "getAttribute svgEl (codeUnits ''viewBox'')")
  case None
  then show ?thesis
    by (simp add: viewBoxSize_def declaredViewBox_def)
next
  case (Some vb)
  show ?thesis
  proof (cases "vb = []")
    case True
    with Some show ?thesis
      by (simp add: viewBoxSize_def declaredViewBox_def viewBoxParts_empty)
  next
    case False
    with Some show ?thesis
      by (simp add: viewBoxSize_def declaredViewBox_def Let_def four_finite_parts)
  qed
qed

lemma attribute_rule:
  "(if isFinite w \<and> isFinite h \<and> positive w \<and> positive h then (valueOf w, valueOf h)
    else (100, 100))
   = (case (case (w, h) of (Finite w', Finite h') \<Rightarrow> Some (w', h') | _ \<Rightarrow> None) of
        Some (w', h') \<Rightarrow> if 0 < w' \<and> 0 < h' then (w', h') else (100, 100)
      | None \<Rightarrow> (100, 100))"
  by (cases w; cases h) simp_all

lemma attributeSize_declared:
  "attributeSize rt svgEl =
     (case declaredAttrs rt svgEl of
        Some (w, h) \<Rightarrow> if 0 < w \<and> 0 < h then (w, h) else (100, 100)
      | None \<Rightarrow> (100, 100))"
  unfolding attributeSize_def declaredAttrs_def Let_def by (rule attribute_rule)

lemma size_rule:
  "(if 0 < fst (viewBoxSize rt svgEl) \<and> 0 < snd (viewBoxSize rt svgEl)
    then viewBoxSize rt svgEl else attributeSize rt svgEl)
   = specIntrinsicSize (declaredViewBox rt svgEl) (declaredAttrs rt svgEl)"
  by (auto simp: viewBoxSize_declared attributeSize_declared specIntrinsicSize_def
      split: option.splits prod.splits)

lemma parseSvgText_total:
  assumes "querySelector (codeUnits ''parsererror'') (parseFromString rt (trim svgText)) = None"
    and "querySelector (codeUnits ''svg'') (parseFromString rt (trim svgText)) = Some svgEl"
    and "trim (innerHTML rt (removeScripts (childNodes svgEl))) \<noteq> []"
  shows "\<exists>r. parseSvgText rt svgText = Inr r
             \<and> inner r = innerHTML rt (removeScripts (childNodes svgEl))"
  using assms by (simp add: parseSvgText_def Let_def split: prod.splits)

lemma trim_nonempty: "trim s \<noteq> [] \<Longrightarrow> s \<noteq> []"
  by (auto simp: trim_def)

lemma example_parts:
  assumes "js_Number rt (codeUnits ''0'') = Finite 0" and "js_Number rt (codeUnits ''10'') = Finite 10"
    and "js_Number rt (codeUnits ''5'') = Finite 5"
  shows "viewBoxParts rt (codeUnits ''0 0 10 5'') = [Finite 0, Finite 0, Finite 10, Finite 5]"
  using assms by (simp add: viewBoxParts_def isSeparator_def trim_def isWhiteSpace_def codeUnits_def)

text \<open>
  Two documents with a no-break space (U+00A0), which \<open>trim\<close> removes: a \<open>viewBox\<close>
  attribute \<open>"0 0 10 5 "\<close> followed by one has the four numbers 0, 0, 10, 5, and an \<open>svg\<close>
  element whose content serialises to a single no-break space has no drawable content.
\<close>

lemma viewBoxParts_trailing_nbsp:
  assumes "js_Number rt (codeUnits ''0'') = Finite 0" and "js_Number rt (codeUnits ''10'') = Finite 10"
    and "js_Number rt (codeUnits ''5'') = Finite 5"
  shows "viewBoxParts rt (codeUnits ''0 0 10 5 '' @ [0x00A0])
           = [Finite 0, Finite 0, Finite 10, Finite 5]"
  using assms by (simp add: viewBoxParts_def isSeparator_def trim_def isWhiteSpace_def codeUnits_def)

lemma parseSvgText_nbsp_content:
  assumes "querySelector (codeUnits ''parsererror'') (parseFromString rt (trim svgText)) = None"
    and "querySelector (codeUnits ''svg'') (parseFromString rt (trim svgText)) = Some svgEl"
    and "innerHTML rt (removeScripts (childNodes svgEl)) = [0x00A0]"
  shows "parseSvgText rt svgText = Inl NoDrawableContent"
  using assms by (simp add: parseSvgText_def Let_def trim_def isWhiteSpace_def split: prod.splits)

lemma parseSvgText_example:
  assumes doc: "parseFromString rt (trim svgText) = [Element (codeUnits ''svg'') attrs children]"
    and noerr: "querySelector (codeUnits ''parsererror'') children = None"
    and vb: "map_of attrs (codeUnits ''viewBox'') = Some (codeUnits ''0 0 10 5'')"
    and n0: "js_Number rt (codeUnits ''0'') = Finite 0"
    and n10: "js_Number rt (codeUnits ''10'') = Finite 10"
    and n5: "js_Number rt (codeUnits ''5'') = Finite 5"
    and drawable: "trim (innerHTML rt (removeScripts children)) \<noteq> []"
  shows "parseSvgText rt svgText =
           Inr \<lparr>inner = innerHTML rt (removeScripts children), vbW = 10, vbH = 5\<rparr>"
proof -
  have size: "viewBoxSize rt (Element (codeUnits ''svg'') attrs children) = (10, 5)"
    using vb example_parts [OF n0 n10 n5] by (simp add: viewBoxSize_def Let_def codeUnits_def)
  have ne: "codeUnits ''svg'' \<noteq> codeUnits ''parsererror''"
    by (simp add: codeUnits_def)
  show ?thesis
    using doc noerr drawable size ne by (simp add: parseSvgText_def Let_def)
qed

text \<open>
  Claim C5.  A result of \<open>parseSvgText\<close> carries the size the specification's rule
  gives for the document's \<open>svg\<close> element: the third and fourth numbers of a four-number
  \<open>viewBox\<close> when both are positive, else the \<open>width\<close> and \<open>height\<close> attributes when both
  are positive, else 100 by 100.  The size never makes the importer fail: a document
  without a parser error, with an \<open>svg\<close> element whose content is not blank after the
  scripts are removed, always has a result.  And a document whose \<open>svg\<close> element has
  \<open>viewBox="0 0 10 5"\<close> and non-blank content yields \<open>vbW = 10\<close>, \<open>vbH = 5\<close> and a non-empty
  \<open>inner\<close>.
\<close>

theorem parseSvgText_intrinsic_size:
  "(parseSvgText rt svgText = Inr r \<longrightarrow>
      (\<exists>svgEl. querySelector (codeUnits ''svg'') (parseFromString rt (trim svgText)) = Some svgEl
         \<and> (vbW r, vbH r) =
             specIntrinsicSize (declaredViewBox rt svgEl) (declaredAttrs rt svgEl)))
   \<and> (querySelector (codeUnits ''parsererror'') (parseFromString rt (trim svgText)) = None
      \<and> querySelector (codeUnits ''svg'') (parseFromString rt (trim svgText)) = Some el
      \<and> trim (innerHTML rt (removeScripts (childNodes el))) \<noteq> []
      \<longrightarrow> (\<exists>r'. parseSvgText rt svgText = Inr r'))
   \<and> (parseFromString rt (trim svgText) = [Element (codeUnits ''svg'') attrs children]
      \<and> querySelector (codeUnits ''parsererror'') children = None
      \<and> map_of attrs (codeUnits ''viewBox'') = Some (codeUnits ''0 0 10 5'')
      \<and> js_Number rt (codeUnits ''0'') = Finite 0 \<and> js_Number rt (codeUnits ''10'') = Finite 10
      \<and> js_Number rt (codeUnits ''5'') = Finite 5
      \<and> trim (innerHTML rt (removeScripts children)) \<noteq> []
      \<longrightarrow> parseSvgText rt svgText =
            Inr \<lparr>inner = innerHTML rt (removeScripts children), vbW = 10, vbH = 5\<rparr>
          \<and> innerHTML rt (removeScripts children) \<noteq> [])"
proof (intro conjI impI)
  assume "parseSvgText rt svgText = Inr r"
  from parseSvgText_size [OF this]
  show "\<exists>svgEl. querySelector (codeUnits ''svg'') (parseFromString rt (trim svgText)) = Some svgEl
         \<and> (vbW r, vbH r) =
             specIntrinsicSize (declaredViewBox rt svgEl) (declaredAttrs rt svgEl)"
    by (simp only: size_rule)
next
  assume "querySelector (codeUnits ''parsererror'') (parseFromString rt (trim svgText)) = None
      \<and> querySelector (codeUnits ''svg'') (parseFromString rt (trim svgText)) = Some el
      \<and> trim (innerHTML rt (removeScripts (childNodes el))) \<noteq> []"
  then show "\<exists>r'. parseSvgText rt svgText = Inr r'"
    using parseSvgText_total [of rt svgText el] by blast
next
  assume h: "parseFromString rt (trim svgText) = [Element (codeUnits ''svg'') attrs children]
      \<and> querySelector (codeUnits ''parsererror'') children = None
      \<and> map_of attrs (codeUnits ''viewBox'') = Some (codeUnits ''0 0 10 5'')
      \<and> js_Number rt (codeUnits ''0'') = Finite 0 \<and> js_Number rt (codeUnits ''10'') = Finite 10
      \<and> js_Number rt (codeUnits ''5'') = Finite 5
      \<and> trim (innerHTML rt (removeScripts children)) \<noteq> []"
  then show "parseSvgText rt svgText =
            Inr \<lparr>inner = innerHTML rt (removeScripts children), vbW = 10, vbH = 5\<rparr>"
    by (elim conjE) (rule parseSvgText_example; assumption)
  from h show "innerHTML rt (removeScripts children) \<noteq> []"
    by (elim conjE) (rule trim_nonempty)
qed

theorem parseSvgText_intrinsic_size_witness:
  "parseSvgText
     \<lparr>parseFromString =
        (\<lambda>t. if t = codeUnits (''<svg viewBox='' @ [CHR 0x22] @ ''0 0 10 5'' @ [CHR 0x22] @ ''><rect/></svg>'')
              then [Element (codeUnits ''svg'') [(codeUnits ''viewBox'', codeUnits ''0 0 10 5'')] [Element (codeUnits ''rect'') [] []]]
              else [Element (codeUnits ''parsererror'') [] []]),
      innerHTML =
        (\<lambda>ns. concat (map (\<lambda>n. case n of Element tag as cs \<Rightarrow> codeUnits ''<'' @ tag @ codeUnits ''/>'' | _ \<Rightarrow> []) ns)),
      js_Number =
        (\<lambda>s. if s = codeUnits ''0'' then Finite 0 else if s = codeUnits ''10'' then Finite 10
              else if s = codeUnits ''5'' then Finite 5 else NaN),
      js_parseFloat = (\<lambda>s. NaN)\<rparr>
     ([0x00A0, 0x0020] @ codeUnits (''<svg viewBox='' @ [CHR 0x22] @ ''0 0 10 5'' @ [CHR 0x22] @ ''><rect/></svg>'') @ [0x2028])
   = Inr \<lparr>inner = codeUnits ''<rect/>'', vbW = 10, vbH = 5\<rparr>"
  using parseSvgText_intrinsic_size
    [where rt = "\<lparr>parseFromString =
        (\<lambda>t. if t = codeUnits (''<svg viewBox='' @ [CHR 0x22] @ ''0 0 10 5'' @ [CHR 0x22] @ ''><rect/></svg>'')
              then [Element (codeUnits ''svg'') [(codeUnits ''viewBox'', codeUnits ''0 0 10 5'')] [Element (codeUnits ''rect'') [] []]]
              else [Element (codeUnits ''parsererror'') [] []]),
      innerHTML =
        (\<lambda>ns. concat (map (\<lambda>n. case n of Element tag as cs \<Rightarrow> codeUnits ''<'' @ tag @ codeUnits ''/>'' | _ \<Rightarrow> []) ns)),
      js_Number =
        (\<lambda>s. if s = codeUnits ''0'' then Finite 0 else if s = codeUnits ''10'' then Finite 10
              else if s = codeUnits ''5'' then Finite 5 else NaN),
      js_parseFloat = (\<lambda>s. NaN)\<rparr>"
     and svgText = "([0x00A0, 0x0020] @ codeUnits (''<svg viewBox='' @ [CHR 0x22] @ ''0 0 10 5'' @ [CHR 0x22] @ ''><rect/></svg>'') @ [0x2028])"
     and attrs = "[(codeUnits ''viewBox'', codeUnits ''0 0 10 5'')]"
     and children = "[Element (codeUnits ''rect'') [] []]"]
  by (simp add: trim_def isWhiteSpace_def codeUnits_def)

theorem parseSvgText_positive_size_witness:
  "parseSvgText
     \<lparr>parseFromString =
        (\<lambda>t. [Element (codeUnits ''svg'') [(codeUnits ''viewBox'', codeUnits ''0 0 -3 0''), (codeUnits ''width'', codeUnits ''wide'')]
                [Element (codeUnits ''rect'') [] []]]),
      innerHTML =
        (\<lambda>ns. concat (map (\<lambda>n. case n of Element tag as cs \<Rightarrow> codeUnits ''<'' @ tag @ codeUnits ''/>'' | _ \<Rightarrow> []) ns)),
      js_Number = (\<lambda>s. if s = codeUnits ''0'' then Finite 0 else if s = codeUnits ''-3'' then Finite (- 3) else NaN),
      js_parseFloat = (\<lambda>s. NaN)\<rparr>
     (codeUnits ''<svg/>'')
   = Inr \<lparr>inner = codeUnits ''<rect/>'', vbW = 100, vbH = 100\<rparr>
   \<and> 0 < vbW \<lparr>inner = codeUnits ''<rect/>'', vbW = 100, vbH = 100\<rparr>
   \<and> 0 < vbH \<lparr>inner = codeUnits ''<rect/>'', vbW = 100, vbH = 100\<rparr>"
proof -
  have e: "parseSvgText
     \<lparr>parseFromString =
        (\<lambda>t. [Element (codeUnits ''svg'') [(codeUnits ''viewBox'', codeUnits ''0 0 -3 0''), (codeUnits ''width'', codeUnits ''wide'')]
                [Element (codeUnits ''rect'') [] []]]),
      innerHTML =
        (\<lambda>ns. concat (map (\<lambda>n. case n of Element tag as cs \<Rightarrow> codeUnits ''<'' @ tag @ codeUnits ''/>'' | _ \<Rightarrow> []) ns)),
      js_Number = (\<lambda>s. if s = codeUnits ''0'' then Finite 0 else if s = codeUnits ''-3'' then Finite (- 3) else NaN),
      js_parseFloat = (\<lambda>s. NaN)\<rparr>
     (codeUnits ''<svg/>'')
   = Inr \<lparr>inner = codeUnits ''<rect/>'', vbW = 100, vbH = 100\<rparr>"
    by (simp add: parseSvgText_def Let_def viewBoxSize_def viewBoxParts_def attributeSize_def
        trim_def isWhiteSpace_def isSeparator_def codeUnits_def)
  show ?thesis
    using e parseSvgText_positive_size [OF e] by simp
qed

end
